theory Spec2Isabelle
  imports Main "HOL-Library.Sublist"
begin

section \<open>JavaScript values\<close>

text \<open>
  The values the provider handles without looking inside them (the fields of the backend
  user are typed \<^verbatim>\<open>any\<close>) are JavaScript primitives. Numbers are integers here: the
  code compares a number only with zero (truthiness).
\<close>

datatype jsval = JUndefined | JNull | JBool bool | JNum int | JStr string

text \<open>A value of the TypeScript type \<^verbatim>\<open>T | null | undefined\<close>.\<close>

datatype 'a nullable = Undefined | Null | Val 'a

text \<open>Truthiness, as \<^verbatim>\<open>!x\<close>, \<^verbatim>\<open>x && y\<close>, \<^verbatim>\<open>x || y\<close> and \<^verbatim>\<open>x ? a : b\<close> test it.\<close>

fun truthy :: "jsval \<Rightarrow> bool" where
  "truthy JUndefined = False"
| "truthy JNull = False"
| "truthy (JBool b) = b"
| "truthy (JNum n) = (n \<noteq> 0)"
| "truthy (JStr s) = (s \<noteq> [])"

fun truthy_str :: "string nullable \<Rightarrow> bool" where
  "truthy_str Undefined = False"
| "truthy_str Null = False"
| "truthy_str (Val s) = (s \<noteq> [])"

text \<open>\<^verbatim>\<open>a || b\<close> on values, and \<^verbatim>\<open>m || d\<close> for an optional string with a default.\<close>

definition js_or :: "jsval \<Rightarrow> jsval \<Rightarrow> jsval" where
  "js_or a b = (if truthy a then a else b)"

fun or_else :: "string option \<Rightarrow> string \<Rightarrow> string" where
  "or_else None d = d"
| "or_else (Some m) d = (if m = [] then d else m)"

text \<open>\<^verbatim>\<open>String.prototype.includes\<close>: the argument occurs as a contiguous run of characters.\<close>

fun includes_str :: "string \<Rightarrow> string \<Rightarrow> bool" where
  "includes_str [] needle = (needle = [])"
| "includes_str (c # cs) needle = (take (length needle) (c # cs) = needle \<or> includes_str cs needle)"

text \<open>A template literal \<^verbatim>\<open>`${x}`\<close> of a string that may be null or undefined.\<close>

fun to_string :: "string nullable \<Rightarrow> string" where
  "to_string Undefined = ''undefined''"
| "to_string Null = ''null''"
| "to_string (Val s) = s"

definition bearer :: "string nullable \<Rightarrow> string" where
  "bearer t = ''Bearer '' @ to_string t"

section \<open>The HTTP client: requests, responses and errors\<close>

text \<open>
  A request configuration, as far as the interceptors read and write it: the request
  itself (\<open>url\<close>), the \<^verbatim>\<open>Authorization\<close> header, the remaining headers, and the
  client's own mark \<^verbatim>\<open>_retry\<close> (absent on a fresh request, which reads as false).
\<close>

record request_config =
  url :: string
  Authorization :: "string option"
  other_headers :: "(string \<times> string) list"
  retry :: bool

text \<open>
  The response of a failed request, as the code reads it: \<^verbatim>\<open>error.response.status\<close> and
  \<^verbatim>\<open>error.response.message\<close> in the response interceptor,
  \<^verbatim>\<open>error.response.data.message\<close> in the handlers.
\<close>

record http_response =
  http_status :: int
  http_message :: "string option"
  http_data_message :: "string option"

record axios_error =
  config :: request_config
  response :: "http_response option"

datatype js_error = Error string | TypeError | SyntaxError | AxiosError axios_error

text \<open>\<^verbatim>\<open>error?.response?.data?.message\<close>\<close>

fun error_message :: "js_error \<Rightarrow> string option" where
  "error_message (AxiosError e) =
     (case response e of None \<Rightarrow> None | Some r \<Rightarrow> http_data_message r)"
| "error_message _ = None"

datatype 'a promise = Resolved 'a | Rejected js_error

section \<open>Users\<close>

text \<open>
  The user object of the backend (typed \<^verbatim>\<open>any\<close>; fields \<^verbatim>\<open>id\<close>, \<^verbatim>\<open>name\<close>, \<^verbatim>\<open>email\<close>,
  \<^verbatim>\<open>phone\<close>, \<^verbatim>\<open>profile_picture\<close>, \<^verbatim>\<open>is_verified\<close>, \<^verbatim>\<open>role\<close>) and the current user the
  provider derives from it (fields \<^verbatim>\<open>userId\<close>, \<^verbatim>\<open>name\<close>, \<^verbatim>\<open>email\<close>, \<^verbatim>\<open>phone\<close>, \<^verbatim>\<open>image\<close>,
  \<^verbatim>\<open>otpVerified\<close>, \<^verbatim>\<open>role\<close>). The selectors carry a prefix, since both objects have a
  \<^verbatim>\<open>name\<close>, an \<^verbatim>\<open>email\<close>, a \<^verbatim>\<open>phone\<close> and a \<^verbatim>\<open>role\<close>. A property that is absent reads as
  \<^verbatim>\<open>undefined\<close>.
\<close>

record backend_user =
  bu_id :: jsval
  bu_name :: jsval
  bu_email :: jsval
  bu_phone :: jsval
  bu_profile_picture :: jsval
  bu_is_verified :: jsval
  bu_role :: jsval

record current_user =
  cu_userId :: jsval
  cu_name :: jsval
  cu_email :: jsval
  cu_phone :: jsval
  cu_image :: jsval
  cu_otpVerified :: jsval
  cu_role :: "string nullable"

section \<open>Effects\<close>

text \<open>
  Every effect of the provider is an event, and a handler is a function to the list of
  its events in the order the source performs them: a call of \<^verbatim>\<open>authApi\<close>, a request put
  on the wire by \<^verbatim>\<open>api.request\<close>, a navigation, a React state setter, a write to
  \<^verbatim>\<open>sessionStorage\<close>, a toast, a console line; for the listing menus, a call
  \<^verbatim>\<open>mutateAsync({ propertyId, type })\<close> of the publish-status mutation, which is the
  request to the remote API, and the setters of the menu's own state
  (\<open>SetLoadingStates idx b\<close> is the update that copies the array and assigns \<open>b\<close> at
  \<open>idx\<close>).
\<close>

text \<open>The modal a listing row has open: \<^verbatim>\<open>false | "edit" | "details"\<close>.\<close>

datatype modal = Closed | Edit | Details

datatype api_call =
    GetAuthUser
  | Login string string
  | VerifyOtp int string
  | ResendOtp
  | ForgotPassword string
  | ResetPassword string string string
  | Logout
  | RefreshAccessToken

datatype event =
    Api api_call
  | Send request_config
  | Navigate string
  | SetUser "current_user nullable"
  | SetToken "string nullable"
  | SetRole "string nullable"
  | SetIsAuthenticated bool
  | SetIsLoadingAuth bool
  | SetItem string string
  | RemoveItem string
  | ToastSuccess string
  | ToastError string
  | ToastErrorAlert string string
  | ConsoleLog
  | ConsoleError
  | ToastInfo string
  | MutateAsync jsval string
  | SetOpenModal modal
  | SetLoadingStates nat bool

section \<open>The request interceptor\<close>

text \<open>
  \<^verbatim>\<open>config.headers.Authorization =
    !config?._retry && token ? `Bearer ${token}` : config.headers.Authorization\<close>,
  with \<open>tok\<close> the token of the render that registered the interceptor.
\<close>

definition requestInterceptor :: "string nullable \<Rightarrow> request_config \<Rightarrow> request_config" where
  "requestInterceptor tok cfg =
     cfg\<lparr>Authorization :=
           (if \<not> retry cfg \<and> truthy_str tok then Some (bearer tok) else Authorization cfg)\<rparr>"

section \<open>The response interceptor\<close>

text \<open>
  The response of \<^verbatim>\<open>authApi.refreshAccessToken()\<close>, read as
  \<^verbatim>\<open>response.data?.accessToken\<close>. The call resolves with a response, resolves with
  nothing (\<open>None\<close>: reading \<^verbatim>\<open>response.data\<close> then throws), or rejects.
\<close>

record refresh_response =
  rdata :: "string nullable option"

fun accessToken_of :: "refresh_response \<Rightarrow> string nullable" where
  "accessToken_of r = (case rdata r of None \<Rightarrow> Undefined | Some a \<Rightarrow> a)"

text \<open>\<^verbatim>\<open>error?.response?.status === 403 && error?.response?.message === "Unauthorized"\<close>\<close>

definition unauthorized :: "axios_error \<Rightarrow> bool" where
  "unauthorized e =
     (case response e of
        None \<Rightarrow> False
      | Some r \<Rightarrow> http_status r = 403 \<and> http_message r = Some ''Unauthorized'')"

text \<open>
  What the error handler of the response interceptor returns: the rejection of an error,
  or \<^verbatim>\<open>api.request(originalRequest)\<close>; it returns nothing (\<open>Hang\<close>) while the refresh
  call it awaits does not settle. \<^verbatim>\<open>originalRequest\<close> is \<^verbatim>\<open>error.config\<close> itself, so
  the assignment \<^verbatim>\<open>originalRequest._retry = true\<close> is a write to the error that is
  rejected later. The second argument is the outcome of \<^verbatim>\<open>authApi.refreshAccessToken()\<close>
  if the handler calls it (\<open>None\<close>: the call never settles).
\<close>

datatype verdict = Reject axios_error | Reissue request_config | Hang

definition refreshInterceptor ::
  "axios_error \<Rightarrow> refresh_response option promise option \<Rightarrow> event list \<times> verdict" where
  "refreshInterceptor e refresh =
     (if unauthorized e then
        (let originalRequest = (config e)\<lparr>retry := True\<rparr>;
             e' = e\<lparr>config := originalRequest\<rparr>
         in case refresh of
              None \<Rightarrow> ([Api RefreshAccessToken], Hang)
            | Some (Resolved (Some r)) \<Rightarrow>
                ([Api RefreshAccessToken, SetToken (accessToken_of r)],
                 Reissue (originalRequest\<lparr>Authorization := Some (bearer (accessToken_of r))\<rparr>))
            | Some (Resolved None) \<Rightarrow> ([Api RefreshAccessToken, ConsoleError], Reject e')
            | Some (Rejected _) \<Rightarrow> ([Api RefreshAccessToken, ConsoleError], Reject e'))
      else ([], Reject e))"

text \<open>
  One call of \<^verbatim>\<open>api.request\<close>, with the interceptors in place. The server's answers to
  the successive sends and the outcomes of the successive refresh calls are the
  environment, each a list consumed from the front; a request whose answer never comes
  stays pending. A request re-issued by the response interceptor passes through both
  interceptors again. By then the provider may have registered the request interceptor
  anew with the refreshed token; the model keeps \<open>tok\<close>, which makes no difference: a
  re-issued request carries the retry mark, and the request interceptor returns such a
  request as it is, whatever the token. The error of a failed send carries the
  configuration that was sent.
\<close>

datatype reply = Success string | Failure "http_response option"

datatype request_result = Fulfilled string | Failed axios_error | Pending

fun next_refresh :: "'a list \<Rightarrow> 'a option" where
  "next_refresh [] = None"
| "next_refresh (f # fs) = Some f"

fun api_request ::
  "string nullable \<Rightarrow> request_config \<Rightarrow> reply list \<Rightarrow> refresh_response option promise list
     \<Rightarrow> event list \<times> request_result" where
  "api_request tok cfg [] refreshes = ([Send (requestInterceptor tok cfg)], Pending)"
| "api_request tok cfg (Success body # replies) refreshes =
     ([Send (requestInterceptor tok cfg)], Fulfilled body)"
| "api_request tok cfg (Failure r # replies) refreshes =
     (let sent = requestInterceptor tok cfg;
          e = \<lparr>config = sent, response = r\<rparr>
      in case refreshInterceptor e (next_refresh refreshes) of
           (evs, Reject e') \<Rightarrow> (Send sent # evs, Failed e')
         | (evs, Hang) \<Rightarrow> (Send sent # evs, Pending)
         | (evs, Reissue cfg') \<Rightarrow>
             (case api_request tok cfg' replies (tl refreshes) of
                (evs', res) \<Rightarrow> (Send sent # evs @ evs', res)))"

text \<open>The answer 403 "Unauthorized" of the server.\<close>

definition unauthorized_reply :: reply where
  "unauthorized_reply =
     Failure (Some \<lparr>http_status = 403, http_message = Some ''Unauthorized'',
                      http_data_message = None\<rparr>)"

definition refresh_calls :: "event list \<Rightarrow> nat" where
  "refresh_calls evs = length (filter (\<lambda>ev. ev = Api RefreshAccessToken) evs)"

fun sends :: "event list \<Rightarrow> request_config list" where
  "sends [] = []"
| "sends (Send c # evs) = c # sends evs"
| "sends (_ # evs) = sends evs"

section \<open>Auth state and session storage\<close>

text \<open>
  The React state of \<^verbatim>\<open>AuthProvider\<close> (each \<^verbatim>\<open>useState\<close> cell) and the browser's
  \<^verbatim>\<open>sessionStorage\<close>, a map from keys to texts.
\<close>

record auth_state =
  user :: "current_user nullable"
  token :: "string nullable"
  role :: "string nullable"
  isAuthenticated :: bool
  isLoadingAuth :: bool
  sessionStorage :: "string \<Rightarrow> string option"

definition initial_state :: auth_state where
  "initial_state =
     \<lparr>user = Undefined, token = Undefined, role = Undefined, isAuthenticated = False,
      isLoadingAuth = False, sessionStorage = (\<lambda>k. None)\<rparr>"

fun apply_event :: "event \<Rightarrow> auth_state \<Rightarrow> auth_state" where
  "apply_event (SetUser u) w = w\<lparr>user := u\<rparr>"
| "apply_event (SetToken t) w = w\<lparr>token := t\<rparr>"
| "apply_event (SetRole r) w = w\<lparr>role := r\<rparr>"
| "apply_event (SetIsAuthenticated b) w = w\<lparr>isAuthenticated := b\<rparr>"
| "apply_event (SetIsLoadingAuth b) w = w\<lparr>isLoadingAuth := b\<rparr>"
| "apply_event (SetItem k v) w = w\<lparr>sessionStorage := (sessionStorage w)(k \<mapsto> v)\<rparr>"
| "apply_event (RemoveItem k) w = w\<lparr>sessionStorage := (sessionStorage w)(k := None)\<rparr>"
| "apply_event _ w = w"

fun run :: "auth_state \<Rightarrow> event list \<Rightarrow> auth_state" where
  "run w [] = w"
| "run w (ev # evs) = run (apply_event ev w) evs"

fun navigations :: "event list \<Rightarrow> string list" where
  "navigations [] = []"
| "navigations (Navigate p # evs) = p # navigations evs"
| "navigations (_ # evs) = navigations evs"

text \<open>
  \<^verbatim>\<open>JSON.stringify\<close> and \<^verbatim>\<open>JSON.parse\<close> belong to the platform; the provider applies them
  to the current user and to the token. They are a parameter of the model:
  the text of a user object, the text of a string, and the two parsers, which return
  \<open>None\<close> where \<^verbatim>\<open>JSON.parse\<close> throws a \<^verbatim>\<open>SyntaxError\<close>. The text under the user key is
  taken to denote a user object whenever it parses.
\<close>

record json =
  stringify_user :: "current_user \<Rightarrow> string"
  stringify_string :: "string \<Rightarrow> string"
  parse_user :: "string \<Rightarrow> current_user option"
  parse_token :: "string \<Rightarrow> string nullable option"

text \<open>
  The text \<^verbatim>\<open>sessionStorage.setItem(key, JSON.stringify(authToken))\<close> stores:
  \<^verbatim>\<open>JSON.stringify(undefined)\<close> is \<^verbatim>\<open>undefined\<close>, which \<^verbatim>\<open>setItem\<close> stores as the text
  \<^verbatim>\<open>undefined\<close>.
\<close>

fun stored_token :: "json \<Rightarrow> string nullable \<Rightarrow> string" where
  "stored_token J Undefined = ''undefined''"
| "stored_token J Null = ''null''"
| "stored_token J (Val s) = stringify_string J s"

datatype completion = Returned | Threw js_error


section \<open>Responses of the auth API\<close>

text \<open>
  A response \<^verbatim>\<open>res\<close> of \<^verbatim>\<open>authApi\<close>, as the provider reads it: \<^verbatim>\<open>res.status\<close> (its
  truthiness), \<^verbatim>\<open>res.message\<close>, \<^verbatim>\<open>res.data.user\<close> and \<^verbatim>\<open>res.data.token\<close>. The call may
  resolve with no response at all (\<open>None\<close>).
\<close>

record api_data =
  data_user :: "backend_user option"
  data_token :: "string nullable"

record api_response =
  status :: bool
  message :: "string option"
  data :: "api_data option"

text \<open>\<^verbatim>\<open>res?.status\<close>, \<^verbatim>\<open>res?.message\<close>, \<^verbatim>\<open>res?.data?.token\<close>, \<^verbatim>\<open>res?.data?.user\<close>\<close>

fun res_status :: "api_response option \<Rightarrow> bool" where
  "res_status None = False"
| "res_status (Some r) = status r"

fun res_message :: "api_response option \<Rightarrow> string option" where
  "res_message None = None"
| "res_message (Some r) = message r"

fun res_token :: "api_response option \<Rightarrow> string nullable" where
  "res_token None = Undefined"
| "res_token (Some r) = (case data r of None \<Rightarrow> Undefined | Some d \<Rightarrow> data_token d)"

fun res_user :: "api_response option \<Rightarrow> backend_user option" where
  "res_user None = None"
| "res_user (Some r) = (case data r of None \<Rightarrow> None | Some d \<Rightarrow> data_user d)"

section \<open>The session\<close>

text \<open>
  \<^verbatim>\<open>setUserSession(user, authToken)\<close>. Building the current user reads
  \<^verbatim>\<open>user.role.includes("admin")\<close>, which throws a \<^verbatim>\<open>TypeError\<close> when the role is
  missing, a boolean or a number (the role is a string in what follows; a role that is an
  array has no counterpart here); this happens before the first effect. The result is the
  current user and the events of the call.
\<close>

definition setUserSession ::
  "json \<Rightarrow> backend_user \<Rightarrow> string nullable \<Rightarrow> js_error + current_user \<times> event list" where
  "setUserSession J u authToken =
     (case bu_role u of
        JStr r \<Rightarrow>
          (let currentUser =
                 \<lparr>cu_userId = bu_id u,
                  cu_name = bu_name u,
                  cu_email = bu_email u,
                  cu_phone = bu_phone u,
                  cu_image = bu_profile_picture u,
                  cu_otpVerified = js_or (bu_is_verified u) (JBool False),
                  cu_role = Val (if includes_str r ''admin'' then ''ADMIN'' else ''STAFF'')\<rparr>
           in Inr (currentUser,
                   [SetToken authToken,
                    SetUser (Val currentUser),
                    SetRole (cu_role currentUser),
                    SetItem ''admin-skymeasures-currentUser'' (stringify_user J currentUser),
                    SetItem ''admin-skymeasures-token'' (stored_token J authToken)]))
      | _ \<Rightarrow> Inl TypeError)"




section \<open>The auth handlers\<close>

text \<open>
  Each handler takes, after its own arguments, the outcome of the one \<^verbatim>\<open>authApi\<close> call
  it makes, and returns its events and how it completes. The arguments are typed
  \<^verbatim>\<open>string\<close> and \<^verbatim>\<open>number\<close>: the empty string and zero are the falsy ones (a number
  is an integer here; \<^verbatim>\<open>NaN\<close>, falsy as well, has no counterpart).
\<close>

text \<open>\<^verbatim>\<open>user?.is_verified\<close>\<close>

fun user_is_verified :: "backend_user option \<Rightarrow> jsval" where
  "user_is_verified None = JUndefined"
| "user_is_verified (Some u) = bu_is_verified u"

text \<open>\<^verbatim>\<open>if (user) setUserSession(user, authToken)\<close>: the events, or the error thrown.\<close>

fun session_if_user :: "json \<Rightarrow> backend_user option \<Rightarrow> string nullable \<Rightarrow> js_error + event list" where
  "session_if_user J None authToken = Inr []"
| "session_if_user J (Some u) authToken =
     (case setUserSession J u authToken of
        Inl err \<Rightarrow> Inl err
      | Inr (currentUser, evs) \<Rightarrow> Inr evs)"

definition handleLogin_try :: "json \<Rightarrow> api_response option promise \<Rightarrow> event list \<times> js_error option" where
  "handleLogin_try J p =
     (case p of
        Rejected err \<Rightarrow> ([], Some err)
      | Resolved res \<Rightarrow>
          if \<not> res_status res then ([], Some (Error (or_else (res_message res) ''Error Signing in'')))
          else
            (let authToken = res_token res;
                 u = res_user res
             in case session_if_user J u authToken of
                  Inl err \<Rightarrow> ([], Some err)
                | Inr evs \<Rightarrow>
                    (evs @
                     (if \<not> truthy (user_is_verified u) then
                        [Navigate ''/verify-otp'',
                         ToastSuccess (or_else (res_message res) ''Login successful. Please verify OTP.'')]
                      else
                        [ToastSuccess (or_else (res_message res) ''Login successful.''),
                         Navigate ''/dashboard'']),
                     None)))"

definition handleLogin_catch :: "js_error \<Rightarrow> event list" where
  "handleLogin_catch err =
     (let errorMessage = error_message err;
          msg = (case errorMessage of
                   None \<Rightarrow> ''Error signing in''
                 | Some m \<Rightarrow>
                     if includes_str m ''These credentials do not match our records'' then m
                     else if includes_str m ''Bad Credentials'' then ''Incorrect password''
                     else ''Error signing in'')
      in [ConsoleLog, SetToken Null, SetUser Null, SetRole Null,
          ToastErrorAlert (or_else errorMessage msg) msg])"

definition handleLogin ::
  "json \<Rightarrow> string \<Rightarrow> string \<Rightarrow> api_response option promise \<Rightarrow> event list \<times> completion" where
  "handleLogin J email password p =
     (if email = [] \<or> password = [] then ([], Returned)
      else case handleLogin_try J p of
             (evs, None) \<Rightarrow>
               ([SetIsLoadingAuth True, Api (Login email password)] @ evs @ [SetIsLoadingAuth False],
                Returned)
           | (evs, Some err) \<Rightarrow>
               ([SetIsLoadingAuth True, Api (Login email password)] @ evs @ handleLogin_catch err
                  @ [SetIsLoadingAuth False],
                Returned))"

text \<open>
  \<^verbatim>\<open>{ ...(user as User), otpVerified: true }\<close>, with \<^verbatim>\<open>user\<close> the state of the render:
  spreading \<^verbatim>\<open>null\<close> or \<^verbatim>\<open>undefined\<close> gives no property.
\<close>

fun spread_user :: "current_user nullable \<Rightarrow> current_user" where
  "spread_user (Val cu) = cu"
| "spread_user _ =
     \<lparr>cu_userId = JUndefined, cu_name = JUndefined, cu_email = JUndefined, cu_phone = JUndefined,
      cu_image = JUndefined, cu_otpVerified = JUndefined, cu_role = Undefined\<rparr>"

definition updatedUser :: "auth_state \<Rightarrow> current_user" where
  "updatedUser w = (spread_user (user w))\<lparr>cu_otpVerified := JBool True\<rparr>"

definition handleVerifyOtp ::
  "json \<Rightarrow> auth_state \<Rightarrow> int \<Rightarrow> string \<Rightarrow> api_response option promise \<Rightarrow> event list \<times> completion" where
  "handleVerifyOtp J w otp email p =
     (if otp = 0 \<or> email = [] then ([], Returned)
      else case (case p of
                   Rejected err \<Rightarrow> Some err
                 | Resolved res \<Rightarrow>
                     if \<not> res_status res
                     then Some (Error (or_else (res_message res) ''OTP verification failed''))
                     else None) of
             None \<Rightarrow>
               ([SetIsLoadingAuth True, Api (VerifyOtp otp email),
                 SetItem ''admin-skymeasures-currentUser'' (stringify_user J (updatedUser w)),
                 SetUser (Val (updatedUser w)),
                 ToastSuccess ''OTP verified successfully. Redirecting to dashboard...'',
                 Navigate ''/dashboard'',
                 SetIsLoadingAuth False],
                Returned)
           | Some err \<Rightarrow>
               ([SetIsLoadingAuth True, Api (VerifyOtp otp email),
                 ToastError (or_else (error_message err) ''Failed to verify OTP. Please try again.''),
                 SetIsLoadingAuth False],
                Threw (Error (or_else (error_message err) ''Failed to verify OTP.''))))"

definition handleResendOtp :: "string \<Rightarrow> api_response option promise \<Rightarrow> event list \<times> completion" where
  "handleResendOtp email p =
     (if email = [] then ([], Returned)
      else case (case p of
                   Rejected err \<Rightarrow> Some err
                 | Resolved res \<Rightarrow>
                     if \<not> res_status res
                     then Some (Error (or_else (res_message res) ''Failed to resend OTP''))
                     else None) of
             None \<Rightarrow> ([Api ResendOtp, ToastSuccess ''OTP resent successfully''], Returned)
           | Some err \<Rightarrow>
               ([Api ResendOtp, ToastError (or_else (error_message err) ''Failed to resend OTP'')],
                Returned))"

definition handleForgotPassword :: "string \<Rightarrow> api_response option promise \<Rightarrow> event list \<times> completion" where
  "handleForgotPassword email p =
     (if email = [] then ([], Returned)
      else case (case p of
                   Rejected err \<Rightarrow> Inl err
                 | Resolved res \<Rightarrow>
                     if \<not> res_status res
                     then Inl (Error (or_else (res_message res) ''Error sending reset OTP''))
                     else Inr (res_message res)) of
             Inr m \<Rightarrow>
               ([SetIsLoadingAuth True, Api (ForgotPassword email),
                 ToastSuccess (or_else m ''Password reset OTP has been sent successfully''),
                 Navigate ''/change-password'',
                 SetIsLoadingAuth False],
                Returned)
           | Inl err \<Rightarrow>
               ([SetIsLoadingAuth True, Api (ForgotPassword email),
                 ToastError (or_else (error_message err) ''Error sending reset OTP''),
                 SetIsLoadingAuth False],
                Returned))"

definition handleResetPassword ::
  "string \<Rightarrow> string \<Rightarrow> string \<Rightarrow> api_response option promise \<Rightarrow> event list \<times> completion" where
  "handleResetPassword email password otp p =
     (if email = [] \<or> password = [] \<or> otp = [] then ([], Returned)
      else case (case p of
                   Rejected err \<Rightarrow> Some err
                 | Resolved res \<Rightarrow>
                     if \<not> res_status res
                     then Some (Error (or_else (res_message res) ''Failed to reset password''))
                     else None) of
             None \<Rightarrow>
               ([SetIsLoadingAuth True, Api (ResetPassword email password otp),
                 ToastSuccess ''Password reset successful'',
                 Navigate ''/change-password/success'',
                 SetIsLoadingAuth False],
                Returned)
           | Some err \<Rightarrow>
               ([SetIsLoadingAuth True, Api (ResetPassword email password otp),
                 ToastError (or_else (error_message err) ''Failed to reset password''),
                 SetIsLoadingAuth False],
                Returned))"


section \<open>The listing menus\<close>

record dropdown_item =
  icon :: string
  label :: string
  showLoader :: bool

definition dropdownList :: "dropdown_item list" where
  "dropdownList =
     [\<lparr>icon = '''', label = ''Approve'', showLoader = True\<rparr>,
      \<lparr>icon = '''', label = ''Reject'', showLoader = True\<rparr>,
      \<lparr>icon = '''', label = ''View details'', showLoader = False\<rparr>,
      \<lparr>icon = '''', label = ''Delete'', showLoader = True\<rparr>]"

definition options :: "dropdown_item list" where
  "options =
     [\<lparr>icon = '''', label = ''Approve'', showLoader = True\<rparr>,
      \<lparr>icon = '''', label = ''Reject'', showLoader = True\<rparr>,
      \<lparr>icon = '''', label = ''Edit'', showLoader = False\<rparr>,
      \<lparr>icon = '''', label = ''Flag'', showLoader = True\<rparr>,
      \<lparr>icon = '''', label = ''Delete'', showLoader = True\<rparr>]"

text \<open>
  The state of a menu: the open modal and the array of loading flags. A JavaScript array
  grows when an index past its end is assigned, leaving empty slots (\<open>None\<close>) between;
  reading past the end gives \<^verbatim>\<open>undefined\<close> (\<open>None\<close>).
\<close>

record menu_state =
  openModal :: modal
  loadingStates :: "bool option list"

definition array_set :: "'a option list \<Rightarrow> nat \<Rightarrow> 'a \<Rightarrow> 'a option list" where
  "array_set xs i v =
     (if i < length xs then xs[i := Some v]
      else xs @ replicate (i - length xs) None @ [Some v])"

definition array_get :: "'a option list \<Rightarrow> nat \<Rightarrow> 'a option" where
  "array_get xs i = (if i < length xs then xs ! i else None)"

text \<open>\<^verbatim>\<open>useState(list.map(() => false))\<close>\<close>

definition initial_menu :: "dropdown_item list \<Rightarrow> menu_state" where
  "initial_menu items = \<lparr>openModal = Closed, loadingStates = map (\<lambda>_. Some False) items\<rparr>"

fun apply_menu_event :: "event \<Rightarrow> menu_state \<Rightarrow> menu_state" where
  "apply_menu_event (SetOpenModal m) s = s\<lparr>openModal := m\<rparr>"
| "apply_menu_event (SetLoadingStates idx b) s = s\<lparr>loadingStates := array_set (loadingStates s) idx b\<rparr>"
| "apply_menu_event _ s = s"

fun run_menu :: "menu_state \<Rightarrow> event list \<Rightarrow> menu_state" where
  "run_menu s [] = s"
| "run_menu s (ev # evs) = run_menu (apply_menu_event ev s) evs"

text \<open>
  The listing of a row (the \<^verbatim>\<open>data\<close> prop, which may be missing), as far as the menu reads
  it: its \<^verbatim>\<open>id\<close>.
\<close>

record listing =
  listing_id :: jsval

text \<open>
  \<^verbatim>\<open>onClickHandlers\<close> of \<^verbatim>\<open>ListingActions\<close>: the handler at an index, run on the row's
  listing \<open>d\<close> and the outcome \<open>m\<close> of \<^verbatim>\<open>mutateAsync\<close>; \<open>None\<close> where the table has no
  function. Destructuring \<^verbatim>\<open>const { id } = data\<close> throws when the listing is missing.
\<close>

definition onClickHandlers ::
  "listing option \<Rightarrow> unit promise \<Rightarrow> nat \<Rightarrow> (event list \<times> completion) option" where
  "onClickHandlers d m idx =
     (if idx = 0 then
        Some (case d of
                None \<Rightarrow> ([], Threw TypeError)
              | Some l \<Rightarrow>
                  (case m of
                     Rejected err \<Rightarrow> ([MutateAsync (listing_id l) ''publish''], Threw err)
                   | Resolved _ \<Rightarrow>
                       ([MutateAsync (listing_id l) ''publish'',
                         ToastSuccess ''Property published successfully''],
                        Returned)))
      else if idx = 1 then Some ([ToastInfo ''Property rejected''], Returned)
      else if idx = 2 then Some ([SetOpenModal Details], Returned)
      else if idx = 3 then
        Some (case d of
                None \<Rightarrow> ([], Threw TypeError)
              | Some l \<Rightarrow>
                  (case m of
                     Rejected err \<Rightarrow> ([MutateAsync (listing_id l) ''unpublish''], Threw err)
                   | Resolved _ \<Rightarrow>
                       ([MutateAsync (listing_id l) ''unpublish'',
                         ToastSuccess ''Property deleted successfully''],
                        Returned)))
      else None)"

text \<open>
  \<^verbatim>\<open>handleItemClick(idx, showLoader)\<close> of \<^verbatim>\<open>ListingActions\<close>; \<open>loader\<close> is the
  \<^verbatim>\<open>showLoader\<close> argument.
\<close>

definition handleItemClick ::
  "listing option \<Rightarrow> unit promise \<Rightarrow> nat \<Rightarrow> bool \<Rightarrow> event list \<times> completion" where
  "handleItemClick d m idx loader =
     (case onClickHandlers d m idx of
        None \<Rightarrow> ([], Returned)
      | Some (evs, c) \<Rightarrow>
          ((if loader then [SetLoadingStates idx True] else []) @ evs
             @ (if loader then [SetLoadingStates idx False] else []),
           c))"

text \<open>
  \<^verbatim>\<open>onClickHandlers\<close> and \<^verbatim>\<open>handleItemClick\<close> of \<^verbatim>\<open>Options\<close>, the menu of the details
  modal; \<open>has_setOpenModal\<close> tells whether the optional \<^verbatim>\<open>setOpenModal\<close> prop is given.
\<close>

definition onClickHandlers_Options :: "bool \<Rightarrow> nat \<Rightarrow> (event list \<times> completion) option" where
  "onClickHandlers_Options has_setOpenModal idx =
     (if idx = 0 then Some ([], Returned)
      else if idx = 1 then Some ([], Returned)
      else if idx = 2 then Some (if has_setOpenModal then [SetOpenModal Edit] else [], Returned)
      else if idx = 3 then Some ([], Returned)
      else if idx = 4 then Some ([], Returned)
      else None)"

definition handleItemClick_Options :: "bool \<Rightarrow> nat \<Rightarrow> bool \<Rightarrow> event list \<times> completion" where
  "handleItemClick_Options has_setOpenModal idx loader =
     (case onClickHandlers_Options has_setOpenModal idx of
        None \<Rightarrow> ([], Returned)
      | Some (evs, c) \<Rightarrow>
          ((if loader then [SetLoadingStates idx True] else []) @ evs
             @ (if loader then [SetLoadingStates idx False] else []),
           c))"

text \<open>
  What each menu renders: for the item at every position of its list, the label and the
  click \<^verbatim>\<open>onClick={() => handleItemClick(index, item?.showLoader)}\<close>.
\<close>

definition menu_row :: "listing option \<Rightarrow> unit promise \<Rightarrow> (string \<times> event list \<times> completion) list" where
  "menu_row d m =
     map (\<lambda>(index, item). (label item, handleItemClick d m index (showLoader item)))
       (enumerate 0 dropdownList)"

definition menu_options :: "bool \<Rightarrow> (string \<times> event list \<times> completion) list" where
  "menu_options has_setOpenModal =
     map (\<lambda>(index, item). (label item, handleItemClick_Options has_setOpenModal index (showLoader item)))
       (enumerate 0 options)"

text \<open>The requests to the remote API among the events of a click.\<close>

fun api_requests :: "event list \<Rightarrow> event list" where
  "api_requests [] = []"
| "api_requests (MutateAsync i t # evs) = MutateAsync i t # api_requests evs"
| "api_requests (Api c # evs) = Api c # api_requests evs"
| "api_requests (Send c # evs) = Send c # api_requests evs"
| "api_requests (_ # evs) = api_requests evs"

text \<open>The events of a click whose item shows a loader, around the events of its handler.\<close>

definition with_loader :: "nat \<Rightarrow> event list \<Rightarrow> event list" where
  "with_loader idx hevs = SetLoadingStates idx True # hevs @ [SetLoadingStates idx False]"

fun sets_loading :: "event \<Rightarrow> bool" where
  "sets_loading (SetLoadingStates i b) = True"
| "sets_loading _ = False"

section \<open>Example data\<close>

text \<open>
  A concrete \<^verbatim>\<open>JSON\<close> for the examples: strings are quoted (no character of the examples
  needs an escape), and the user objects are those of a table of objects and their texts.
\<close>

definition quote :: "string \<Rightarrow> string" where
  "quote s = CHR 0x22 # s @ [CHR 0x22]"

definition json_of_table :: "(current_user \<times> string) list \<Rightarrow> json" where
  "json_of_table table =
     \<lparr>stringify_user = (\<lambda>u. case map_of table u of Some t \<Rightarrow> t | None \<Rightarrow> ''{}''),
      stringify_string = quote,
      parse_user = (\<lambda>t. map_of (map (\<lambda>(u, t). (t, u)) table) t),
      parse_token = (\<lambda>t. if t = ''null'' then Some Null
                          else if 2 \<le> length t \<and> hd t = CHR 0x22 \<and> last t = CHR 0x22
                          then Some (Val (butlast (tl t))) else None)\<rparr>"

definition sample_backend_user :: backend_user where
  "sample_backend_user =
     \<lparr>bu_id = JNum 7, bu_name = JStr ''Ada'', bu_email = JStr ''ada@example.com'',
      bu_phone = JUndefined, bu_profile_picture = JNull, bu_is_verified = JBool False,
      bu_role = JStr ''super-admin''\<rparr>"

definition sample_user :: current_user where
  "sample_user =
     \<lparr>cu_userId = JNum 7, cu_name = JStr ''Ada'', cu_email = JStr ''ada@example.com'',
      cu_phone = JUndefined, cu_image = JNull, cu_otpVerified = JBool False,
      cu_role = Val ''ADMIN''\<rparr>"

definition sample_user_text :: "string \<Rightarrow> string" where
  "sample_user_text verified =
     ''{'' @ quote ''userId'' @ '':7,'' @ quote ''name'' @ '':'' @ quote ''Ada'' @ '','' @
     quote ''email'' @ '':'' @ quote ''ada@example.com'' @ '','' @ quote ''image'' @ '':null,'' @
     quote ''otpVerified'' @ '':'' @ verified @ '','' @ quote ''role'' @ '':'' @ quote ''ADMIN'' @ ''}''"

definition sample_json :: json where
  "sample_json =
     json_of_table
       [(sample_user, sample_user_text ''false''),
        (sample_user\<lparr>cu_otpVerified := JBool True\<rparr>, sample_user_text ''true'')]"

text \<open>A successful response of the auth API carrying the given user and the token \<^verbatim>\<open>t1\<close>.\<close>

definition ok_response :: "backend_user option \<Rightarrow> api_response" where
  "ok_response u =
     \<lparr>status = True, message = None, data = Some \<lparr>data_user = u, data_token = Val ''t1''\<rparr>\<rparr>"

text \<open>The events of the session of the sample user with the token \<^verbatim>\<open>t1\<close>.\<close>

definition sample_session_events :: "event list" where
  "sample_session_events =
     [SetToken (Val ''t1''), SetUser (Val sample_user), SetRole (Val ''ADMIN''),
      SetItem ''admin-skymeasures-currentUser'' (sample_user_text ''false''),
      SetItem ''admin-skymeasures-token'' (quote ''t1'')]"

section \<open>Properties\<close>

lemma includes_str_sublist: "includes_str s needle \<longleftrightarrow> sublist needle s"
proof (induction s)
  case Nil
  then show ?case by simp
next
  case (Cons c cs)
  have "prefix needle (c # cs) \<longleftrightarrow> take (length needle) (c # cs) = needle"
    by (metis append_eq_conv_conj prefix_def append_take_drop_id)
  with Cons show ?case
    by (simp add: sublist_Cons_right)
qed

text \<open>
  C4. For every outgoing request, when the auth state holds a token (a non-empty string:
  the test is JavaScript truthiness) and the request is not a retry, the request
  interceptor sets the Authorization header to "Bearer <token>"; in every other case
  (no token, or a retried request) it returns the request as it was, the Authorization
  header included. The url, the other headers and the retry mark are never touched.
\<close>

theorem requestInterceptor_attaches_token:
  "(\<not> retry cfg \<and> truthy_str tok \<longrightarrow>
      requestInterceptor tok cfg = cfg\<lparr>Authorization := Some (''Bearer '' @ to_string tok)\<rparr>)
   \<and> (retry cfg \<or> \<not> truthy_str tok \<longrightarrow> requestInterceptor tok cfg = cfg)
   \<and> url (requestInterceptor tok cfg) = url cfg
   \<and> other_headers (requestInterceptor tok cfg) = other_headers cfg
   \<and> retry (requestInterceptor tok cfg) = retry cfg"
  by (simp add: requestInterceptor_def bearer_def)

theorem requestInterceptor_attaches_token_witness:
  "requestInterceptor (Val ''abc'')
      \<lparr>url = ''/listings'', Authorization = None, other_headers = [], retry = False\<rparr>
     = \<lparr>url = ''/listings'', Authorization = Some ''Bearer abc'', other_headers = [], retry = False\<rparr>
   \<and> requestInterceptor (Val ''abc'')
      \<lparr>url = ''/listings'', Authorization = Some ''Bearer old'', other_headers = [], retry = True\<rparr>
     = \<lparr>url = ''/listings'', Authorization = Some ''Bearer old'', other_headers = [], retry = True\<rparr>
   \<and> requestInterceptor Null
      \<lparr>url = ''/listings'', Authorization = Some ''Bearer old'', other_headers = [], retry = False\<rparr>
     = \<lparr>url = ''/listings'', Authorization = Some ''Bearer old'', other_headers = [], retry = False\<rparr>"
  using requestInterceptor_attaches_token
          [of "\<lparr>url = ''/listings'', Authorization = None, other_headers = [], retry = False\<rparr>"
              "Val ''abc''"]
        requestInterceptor_attaches_token
          [of "\<lparr>url = ''/listings'', Authorization = Some ''Bearer old'', other_headers = [], retry = True\<rparr>"
              "Val ''abc''"]
        requestInterceptor_attaches_token
          [of "\<lparr>url = ''/listings'', Authorization = Some ''Bearer old'', other_headers = [], retry = False\<rparr>"
              Null]
  by simp




lemma requestInterceptor_retry: "retry cfg \<Longrightarrow> requestInterceptor tok cfg = cfg"
  by (simp add: requestInterceptor_def)

lemma refresh_calls_simps:
  "refresh_calls [] = 0"
  "refresh_calls (Send c # evs) = refresh_calls evs"
  "refresh_calls (SetToken t # evs) = refresh_calls evs"
  "refresh_calls (Api RefreshAccessToken # evs) = Suc (refresh_calls evs)"
  by (simp_all add: refresh_calls_def)

lemma api_request_unauthorized_step:
  "api_request tok cfg (unauthorized_reply # replies) (Resolved (Some r) # fs)
     = (Send (requestInterceptor tok cfg) # Api RefreshAccessToken # SetToken (accessToken_of r)
          # fst (api_request tok
                   ((requestInterceptor tok cfg)
                      \<lparr>retry := True, Authorization := Some (bearer (accessToken_of r))\<rparr>)
                   replies fs),
        snd (api_request tok
               ((requestInterceptor tok cfg)
                  \<lparr>retry := True, Authorization := Some (bearer (accessToken_of r))\<rparr>)
               replies fs))"
  by (simp add: unauthorized_reply_def refreshInterceptor_def unauthorized_def Let_def
           split: prod.splits)

text \<open>
  There is no bound: as long as the server answers 403 "Unauthorized" and the refresh
  calls succeed, every answer triggers one more refresh and one more send of the request.
\<close>

lemma api_request_refreshes_every_time:
  "refresh_calls (fst (api_request tok cfg (replicate n unauthorized_reply @ [Success body])
                         (replicate n (Resolved (Some r))))) = n
   \<and> length (sends (fst (api_request tok cfg (replicate n unauthorized_reply @ [Success body])
                         (replicate n (Resolved (Some r)))))) = Suc n
   \<and> snd (api_request tok cfg (replicate n unauthorized_reply @ [Success body])
            (replicate n (Resolved (Some r)))) = Fulfilled body"
proof (induction n arbitrary: cfg)
  case 0
  show ?case by (simp add: refresh_calls_simps)
next
  case (Suc n)
  show ?case
    using Suc[of "(requestInterceptor tok cfg)
                    \<lparr>retry := True, Authorization := Some (bearer (accessToken_of r))\<rparr>"]
    by (simp add: api_request_unauthorized_step refresh_calls_simps del: api_request.simps)
qed



subsection \<open>The listing menus\<close>

lemma array_get_set_same: "array_get (array_set xs i v) i = Some v"
  by (simp add: array_get_def array_set_def nth_append)

lemma array_get_set_other: "j \<noteq> i \<Longrightarrow> array_get (array_set xs i v) j = array_get xs j"
  by (auto simp: array_get_def array_set_def nth_append nth_Cons')

lemma run_menu_append: "run_menu s (xs @ ys) = run_menu (run_menu s xs) ys"
  by (induction xs arbitrary: s) simp_all

lemma apply_menu_event_frame:
  "\<not> sets_loading ev \<Longrightarrow> loadingStates (apply_menu_event ev s) = loadingStates s"
  by (cases ev) simp_all

lemma run_menu_frame:
  "\<not> list_ex sets_loading evs \<Longrightarrow> loadingStates (run_menu s evs) = loadingStates s"
  by (induction evs arbitrary: s) (simp_all add: apply_menu_event_frame)

lemma onClickHandlers_no_loading:
  "onClickHandlers d m idx = Some (hevs, c) \<Longrightarrow> \<not> list_ex sets_loading hevs"
  by (auto simp: onClickHandlers_def split: if_splits option.splits promise.splits)

lemma onClickHandlers_Options_no_loading:
  "onClickHandlers_Options h idx = Some (hevs, c) \<Longrightarrow> \<not> list_ex sets_loading hevs"
  by (auto simp: onClickHandlers_Options_def split: if_splits)

lemma list_ex_take: "\<not> list_ex P xs \<Longrightarrow> \<not> list_ex P (take n xs)"
  by (auto simp: list_ex_iff dest: in_set_takeD)

lemma with_loader_during:
  assumes "\<not> list_ex sets_loading hevs" "0 < n" "n \<le> Suc (length hevs)"
  shows "array_get (loadingStates (run_menu s (take n (with_loader idx hevs)))) idx = Some True"
proof -
  obtain k where n: "n = Suc k" using assms(2) by (cases n) auto
  with assms(3) have k: "k \<le> length hevs" by simp
  have "take n (with_loader idx hevs) = SetLoadingStates idx True # take k hevs"
    using k by (simp add: with_loader_def n)
  then show ?thesis
    using run_menu_frame[OF list_ex_take[OF assms(1)],
            of "apply_menu_event (SetLoadingStates idx True) s" k]
    by (simp add: array_get_set_same)
qed

lemma with_loader_after:
  assumes "\<not> list_ex sets_loading hevs"
  shows "array_get (loadingStates (run_menu s (with_loader idx hevs))) idx = Some False"
  using run_menu_frame[OF assms, of "apply_menu_event (SetLoadingStates idx True) s"]
  by (simp add: with_loader_def run_menu_append array_get_set_same)

lemma with_loader_others:
  assumes "\<not> list_ex sets_loading hevs" "j \<noteq> idx"
  shows "array_get (loadingStates (run_menu s (take n (with_loader idx hevs)))) j
           = array_get (loadingStates s) j"
proof (cases n)
  case 0
  then show ?thesis by simp
next
  case (Suc k)
  show ?thesis
  proof (cases "k \<le> length hevs")
    case True
    then have "take n (with_loader idx hevs) = SetLoadingStates idx True # take k hevs"
      by (simp add: with_loader_def Suc)
    then show ?thesis
      using run_menu_frame[OF list_ex_take[OF assms(1)],
              of "apply_menu_event (SetLoadingStates idx True) s" k]
      by (simp add: array_get_set_other assms(2))
  next
    case False
    then have "take n (with_loader idx hevs) = with_loader idx hevs"
      by (simp add: with_loader_def Suc)
    then show ?thesis
      using run_menu_frame[OF assms(1), of "apply_menu_event (SetLoadingStates idx True) s"]
      by (simp add: with_loader_def run_menu_append array_get_set_other assms(2))
  qed
qed

text \<open>
  C10. For a click on a menu item with \<^verbatim>\<open>showLoader\<close> set (in either menu, at any index
  that has a handler, which every item of both lists has), \<^verbatim>\<open>handleItemClick\<close> first
  sets the loading flag at the item's index to true, then runs the handler, then resets
  the flag to false, and completes as the handler does, also when the handler throws.
  While the handler runs the flag at the index reads true, after the click it reads
  false, and at every moment of the click (after any number \<open>n\<close> of its events) the flag
  at every other index reads as it did before the click.
\<close>

theorem handleItemClick_loading_flag:
  assumes "onClickHandlers d m idx = Some (hevs, c)"
      and "onClickHandlers_Options h idx' = Some (hevs', c')"
  shows "handleItemClick d m idx True
           = (SetLoadingStates idx True # hevs @ [SetLoadingStates idx False], c)
     \<and> (\<forall>n. 0 < n \<and> n \<le> Suc (length hevs) \<longrightarrow>
           array_get (loadingStates (run_menu s (take n (fst (handleItemClick d m idx True))))) idx
             = Some True)
     \<and> array_get (loadingStates (run_menu s (fst (handleItemClick d m idx True)))) idx = Some False
     \<and> (\<forall>n j. j \<noteq> idx \<longrightarrow>
           array_get (loadingStates (run_menu s (take n (fst (handleItemClick d m idx True))))) j
             = array_get (loadingStates s) j)
     \<and> handleItemClick_Options h idx' True
           = (SetLoadingStates idx' True # hevs' @ [SetLoadingStates idx' False], c')
     \<and> (\<forall>n. 0 < n \<and> n \<le> Suc (length hevs') \<longrightarrow>
           array_get (loadingStates (run_menu s (take n (fst (handleItemClick_Options h idx' True))))) idx'
             = Some True)
     \<and> array_get (loadingStates (run_menu s (fst (handleItemClick_Options h idx' True)))) idx'
           = Some False
     \<and> (\<forall>n j. j \<noteq> idx' \<longrightarrow>
           array_get (loadingStates (run_menu s (take n (fst (handleItemClick_Options h idx' True))))) j
             = array_get (loadingStates s) j)
     \<and> list_all (\<lambda>(index, item). onClickHandlers d m index \<noteq> None) (enumerate 0 dropdownList)
     \<and> list_all (\<lambda>(index, item). onClickHandlers_Options h index \<noteq> None) (enumerate 0 options)"
proof -
  have a: "fst (handleItemClick d m idx True) = with_loader idx hevs"
    and a': "handleItemClick d m idx True = (with_loader idx hevs, c)"
    using assms(1) by (simp_all add: handleItemClick_def with_loader_def)
  have b: "fst (handleItemClick_Options h idx' True) = with_loader idx' hevs'"
    and b': "handleItemClick_Options h idx' True = (with_loader idx' hevs', c')"
    using assms(2) by (simp_all add: handleItemClick_Options_def with_loader_def)
  note n1 = onClickHandlers_no_loading[OF assms(1)]
  note n2 = onClickHandlers_Options_no_loading[OF assms(2)]
  have l1: "list_all (\<lambda>(index, item). onClickHandlers d m index \<noteq> None) (enumerate 0 dropdownList)"
    by (simp add: dropdownList_def onClickHandlers_def)
  have l2: "list_all (\<lambda>(index, item). onClickHandlers_Options h index \<noteq> None) (enumerate 0 options)"
    by (simp add: options_def onClickHandlers_Options_def)
  show ?thesis
    unfolding a b
    using with_loader_during[OF n1] with_loader_after[OF n1] with_loader_others[OF n1]
          with_loader_during[OF n2] with_loader_after[OF n2] with_loader_others[OF n2] l1 l2
    by (simp add: a' b' with_loader_def[symmetric])
qed

theorem handleItemClick_loading_flag_witness:
  "onClickHandlers (Some \<lparr>listing_id = JNum 7\<rparr>) (Rejected (Error ''Network Error'')) 0
     = Some ([MutateAsync (JNum 7) ''publish''], Threw (Error ''Network Error''))
   \<and> onClickHandlers_Options True 3 = Some ([], Returned)
   \<and> handleItemClick (Some \<lparr>listing_id = JNum 7\<rparr>) (Rejected (Error ''Network Error'')) 0 True
     = ([SetLoadingStates 0 True, MutateAsync (JNum 7) ''publish'', SetLoadingStates 0 False],
        Threw (Error ''Network Error''))
   \<and> array_get (loadingStates (run_menu (initial_menu dropdownList)
        (take 2 (fst (handleItemClick (Some \<lparr>listing_id = JNum 7\<rparr>)
                        (Rejected (Error ''Network Error'')) 0 True))))) 0 = Some True
   \<and> array_get (loadingStates (run_menu (initial_menu dropdownList)
        (fst (handleItemClick (Some \<lparr>listing_id = JNum 7\<rparr>)
                (Rejected (Error ''Network Error'')) 0 True)))) 0 = Some False
   \<and> array_get (loadingStates (run_menu (initial_menu dropdownList)
        (take 2 (fst (handleItemClick (Some \<lparr>listing_id = JNum 7\<rparr>)
                        (Rejected (Error ''Network Error'')) 0 True))))) 3 = Some False
   \<and> handleItemClick_Options True 3 True
     = ([SetLoadingStates 3 True, SetLoadingStates 3 False], Returned)
   \<and> array_get (loadingStates (run_menu (initial_menu options)
        (take 1 (fst (handleItemClick_Options True 3 True))))) 3 = Some True
   \<and> array_get (loadingStates (run_menu (initial_menu options)
        (fst (handleItemClick_Options True 3 True)))) 3 = Some False"
proof -
  have h1: "onClickHandlers (Some \<lparr>listing_id = JNum 7\<rparr>) (Rejected (Error ''Network Error'')) 0
              = Some ([MutateAsync (JNum 7) ''publish''], Threw (Error ''Network Error''))"
    by (simp add: onClickHandlers_def)
  have h2: "onClickHandlers_Options True 3 = Some ([], Returned)"
    by (simp add: onClickHandlers_Options_def)
  note T1 = handleItemClick_loading_flag[OF h1 h2, of "initial_menu dropdownList"]
  note T2 = handleItemClick_loading_flag[OF h1 h2, of "initial_menu options"]
  have during1: "array_get (loadingStates (run_menu (initial_menu dropdownList)
        (take 2 (fst (handleItemClick (Some \<lparr>listing_id = JNum 7\<rparr>)
                        (Rejected (Error ''Network Error'')) 0 True))))) 0 = Some True"
    using T1[THEN conjunct2, THEN conjunct1, rule_format, of 2] by simp
  have other1: "array_get (loadingStates (run_menu (initial_menu dropdownList)
        (take 2 (fst (handleItemClick (Some \<lparr>listing_id = JNum 7\<rparr>)
                        (Rejected (Error ''Network Error'')) 0 True))))) 3
          = array_get (loadingStates (initial_menu dropdownList)) 3"
    using T1[THEN conjunct2, THEN conjunct2, THEN conjunct2, THEN conjunct1, rule_format, of 3 2]
    by simp
  have during2: "array_get (loadingStates (run_menu (initial_menu options)
        (take 1 (fst (handleItemClick_Options True 3 True))))) 3 = Some True"
    using T2[THEN conjunct2, THEN conjunct2, THEN conjunct2, THEN conjunct2, THEN conjunct2,
             THEN conjunct1, rule_format, of 1]
    by simp
  have init: "array_get (loadingStates (initial_menu dropdownList)) 3 = Some False"
    by (simp add: initial_menu_def dropdownList_def array_get_def)
  show ?thesis
    using h1 h2 T1[THEN conjunct1] T1[THEN conjunct2, THEN conjunct2, THEN conjunct1]
          T2[THEN conjunct2, THEN conjunct2, THEN conjunct2, THEN conjunct2, THEN conjunct1]
          T2[THEN conjunct2, THEN conjunct2, THEN conjunct2, THEN conjunct2, THEN conjunct2,
             THEN conjunct2, THEN conjunct1]
          during1 during2 other1 init
    by simp
qed

text \<open>
  C5. The claim: every action of the two listing menus issues the API request for the
  listing. Of the row menu only Approve and Delete issue one; Reject only shows a toast.
  In the menu of the details modal the handlers of Approve, Reject, Flag and Delete are
  empty: a click issues no request at all.
\<close>

theorem menu_actions_without_request:
  "map (\<lambda>(l, evs, c). (l, api_requests evs))
       (menu_row (Some \<lparr>listing_id = JNum 7\<rparr>) (Resolved ()))
     = [(''Approve'', [MutateAsync (JNum 7) ''publish'']),
        (''Reject'', []),
        (''View details'', []),
        (''Delete'', [MutateAsync (JNum 7) ''unpublish''])]
   \<and> map (\<lambda>(l, evs, c). (l, api_requests evs)) (menu_options True)
     = [(''Approve'', []), (''Reject'', []), (''Edit'', []), (''Flag'', []), (''Delete'', [])]
   \<and> map_of (menu_row (Some \<lparr>listing_id = JNum 7\<rparr>) (Resolved ())) ''Reject''
     = Some ([SetLoadingStates 1 True, ToastInfo ''Property rejected'', SetLoadingStates 1 False],
             Returned)"
  by (simp add: menu_row_def menu_options_def dropdownList_def options_def handleItemClick_def
        handleItemClick_Options_def onClickHandlers_def onClickHandlers_Options_def)

text \<open>
  C6. The claim: Delete deletes the selected property through the remote API and the
  notification tells what was done. The Delete handler of the row menu asks the
  publish-status mutation to unpublish the property and then announces a deletion.
\<close>

theorem delete_action_unpublishes:
  "map_of (menu_row (Some \<lparr>listing_id = JNum 7\<rparr>) (Resolved ())) ''Delete''
     = Some ([SetLoadingStates 3 True,
              MutateAsync (JNum 7) ''unpublish'',
              ToastSuccess ''Property deleted successfully'',
              SetLoadingStates 3 False],
             Returned)
   \<and> map_of (menu_row (Some \<lparr>listing_id = JNum 7\<rparr>) (Resolved ())) ''Approve''
     = Some ([SetLoadingStates 0 True,
              MutateAsync (JNum 7) ''publish'',
              ToastSuccess ''Property published successfully'',
              SetLoadingStates 0 False],
             Returned)"
  by (simp add: menu_row_def dropdownList_def handleItemClick_def onClickHandlers_def)


subsection \<open>The auth handlers\<close>

text \<open>
  C8. Each of \<^verbatim>\<open>handleLogin\<close>, \<^verbatim>\<open>handleVerifyOtp\<close>, \<^verbatim>\<open>handleResendOtp\<close>,
  \<^verbatim>\<open>handleForgotPassword\<close> and \<^verbatim>\<open>handleResetPassword\<close> returns at once with no event
  when one of its arguments is falsy (an empty string, the number zero): no call of the
  API, no navigation, no setter of the auth state, no write to the session storage, so
  the state and the storage stay as they are. In particular \<^verbatim>\<open>handleVerifyOtp\<close> treats
  the OTP 0 as missing.
\<close>

theorem falsy_arguments_are_noop:
  "(email = [] \<or> password = [] \<longrightarrow> handleLogin J email password p = ([], Returned))
   \<and> (otp = 0 \<or> email = [] \<longrightarrow> handleVerifyOtp J w otp email p = ([], Returned))
   \<and> handleVerifyOtp J w 0 email p = ([], Returned)
   \<and> (email = [] \<longrightarrow> handleResendOtp email p = ([], Returned))
   \<and> (email = [] \<longrightarrow> handleForgotPassword email p = ([], Returned))
   \<and> (email = [] \<or> password = [] \<or> otp_text = [] \<longrightarrow>
        handleResetPassword email password otp_text p = ([], Returned))
   \<and> api_requests [] = [] \<and> navigations [] = [] \<and> run w [] = w"
  by (simp add: handleLogin_def handleVerifyOtp_def handleResendOtp_def handleForgotPassword_def
        handleResetPassword_def)

theorem falsy_arguments_are_noop_witness:
  "handleLogin sample_json '''' ''secret'' (Resolved None) = ([], Returned)
   \<and> handleLogin sample_json ''ada@example.com'' '''' (Resolved None) = ([], Returned)
   \<and> handleVerifyOtp sample_json initial_state 0 ''ada@example.com'' (Resolved None) = ([], Returned)
   \<and> handleVerifyOtp sample_json initial_state 123456 '''' (Resolved None) = ([], Returned)
   \<and> handleResendOtp '''' (Resolved None) = ([], Returned)
   \<and> handleForgotPassword '''' (Resolved None) = ([], Returned)
   \<and> handleResetPassword ''ada@example.com'' ''secret'' '''' (Resolved None) = ([], Returned)
   \<and> run initial_state (fst (handleLogin sample_json '''' ''secret'' (Resolved None)))
       = initial_state"
  using falsy_arguments_are_noop
          [of "''''" "''secret''" sample_json "Resolved None" 0 initial_state "''''"]
        falsy_arguments_are_noop
          [of "''ada@example.com''" "''''" sample_json "Resolved None" 123456 initial_state "''''"]
        falsy_arguments_are_noop
          [of "''''" "''secret''" sample_json "Resolved None" 123456 initial_state "''''"]
        falsy_arguments_are_noop
          [of "''ada@example.com''" "''secret''" sample_json "Resolved None" 0 initial_state "''''"]
  by simp


subsection \<open>The session\<close>



lemma navigations_append: "navigations (xs @ ys) = navigations xs @ navigations ys"
  by (induction xs rule: navigations.induct) simp_all








subsection \<open>Login and OTP verification\<close>

lemma session_if_user_navigations:
  "session_if_user J u a = Inr sevs \<Longrightarrow> navigations sevs = []"
  by (cases u) (auto simp: setUserSession_def Let_def split: jsval.splits)

text \<open>
  C7. After a successful \<^verbatim>\<open>handleLogin\<close> (the API resolves with a truthy status and the
  session, if the response carries a user, is established without an error) the app
  navigates exactly once: to "/verify-otp" if the returned user is not verified (or
  missing), otherwise to "/dashboard". A successful \<^verbatim>\<open>handleVerifyOtp\<close> writes the
  current user of the auth state with \<^verbatim>\<open>otpVerified: true\<close> to the session storage and
  to the React state, and then navigates to "/dashboard".
\<close>

theorem login_then_otp:
  assumes "email \<noteq> []" and "password \<noteq> []" and "otp \<noteq> 0"
      and "status res" and "status res'"
      and "session_if_user J (res_user (Some res)) (res_token (Some res)) = Inr sevs"
  shows "snd (handleLogin J email password (Resolved (Some res))) = Returned
     \<and> navigations (fst (handleLogin J email password (Resolved (Some res))))
         = [if truthy (user_is_verified (res_user (Some res))) then ''/dashboard''
            else ''/verify-otp'']
     \<and> handleVerifyOtp J w otp email (Resolved (Some res'))
         = ([SetIsLoadingAuth True,
             Api (VerifyOtp otp email),
             SetItem ''admin-skymeasures-currentUser'' (stringify_user J (updatedUser w)),
             SetUser (Val (updatedUser w)),
             ToastSuccess ''OTP verified successfully. Redirecting to dashboard...'',
             Navigate ''/dashboard'',
             SetIsLoadingAuth False],
            Returned)
     \<and> updatedUser w = (spread_user (user w))\<lparr>cu_otpVerified := JBool True\<rparr>
     \<and> user (run w (fst (handleVerifyOtp J w otp email (Resolved (Some res')))))
         = Val (updatedUser w)
     \<and> sessionStorage (run w (fst (handleVerifyOtp J w otp email (Resolved (Some res')))))
           ''admin-skymeasures-currentUser''
         = Some (stringify_user J (updatedUser w))"
proof -
  have nav: "navigations sevs = []"
    using assms(6) by (rule session_if_user_navigations)
  have v: "handleVerifyOtp J w otp email (Resolved (Some res'))
         = ([SetIsLoadingAuth True,
             Api (VerifyOtp otp email),
             SetItem ''admin-skymeasures-currentUser'' (stringify_user J (updatedUser w)),
             SetUser (Val (updatedUser w)),
             ToastSuccess ''OTP verified successfully. Redirecting to dashboard...'',
             Navigate ''/dashboard'',
             SetIsLoadingAuth False],
            Returned)"
    using assms(1,3,5) by (simp add: handleVerifyOtp_def)
  have l: "handleLogin J email password (Resolved (Some res))
         = ([SetIsLoadingAuth True, Api (Login email password)] @ sevs @
            (if \<not> truthy (user_is_verified (res_user (Some res))) then
               [Navigate ''/verify-otp'',
                ToastSuccess (or_else (message res) ''Login successful. Please verify OTP.'')]
             else
               [ToastSuccess (or_else (message res) ''Login successful.''),
                Navigate ''/dashboard'']) @ [SetIsLoadingAuth False],
            Returned)"
    using assms(1,2,4,6) by (simp add: handleLogin_def handleLogin_try_def Let_def)
  show ?thesis
    unfolding v l by (simp add: navigations_append nav updatedUser_def)
qed

subsection \<open>The role\<close>










subsection \<open>The properties on the example data\<close>

lemma sample_session:
  "setUserSession sample_json sample_backend_user (Val ''t1'')
     = Inr (sample_user, sample_session_events)"
  by (simp add: setUserSession_def sample_backend_user_def sample_user_def sample_json_def
        json_of_table_def js_or_def Let_def sample_session_events_def)

lemma sample_session_verified:
  "setUserSession sample_json (sample_backend_user\<lparr>bu_is_verified := JBool True\<rparr>) (Val ''t1'')
     = Inr (sample_user\<lparr>cu_otpVerified := JBool True\<rparr>,
            [SetToken (Val ''t1''), SetUser (Val (sample_user\<lparr>cu_otpVerified := JBool True\<rparr>)),
             SetRole (Val ''ADMIN''),
             SetItem ''admin-skymeasures-currentUser'' (sample_user_text ''true''),
             SetItem ''admin-skymeasures-token'' (quote ''t1'')])"
  by (simp add: setUserSession_def sample_backend_user_def sample_user_def sample_json_def
        json_of_table_def js_or_def Let_def sample_user_text_def)


lemma sample_json_roundtrip:
  "parse_user sample_json (stringify_user sample_json sample_user) = Some sample_user"
  "parse_token sample_json (stringify_string sample_json ''t1'') = Some (Val ''t1'')"
  "stringify_user sample_json sample_user = sample_user_text ''false''"
  "stringify_string sample_json ''t1'' = quote ''t1''"
  "sample_user_text ''false'' \<noteq> []" "quote ''t1'' \<noteq> []"
  "stringify_user sample_json (sample_user\<lparr>cu_otpVerified := JBool True\<rparr>)
     = sample_user_text ''true''"
  "parse_user sample_json (sample_user_text ''false'') = Some sample_user"
  "parse_token sample_json (quote ''t1'') = Some (Val ''t1'')"
  by (simp_all add: sample_json_def json_of_table_def sample_user_text_def quote_def
        sample_user_def)


lemma sample_user_after_session:
  "user (run initial_state sample_session_events) = Val sample_user"
  by (simp add: sample_session_events_def)


theorem login_then_otp_witness:
  "navigations (fst (handleLogin sample_json ''ada@example.com'' ''secret''
        (Resolved (Some (ok_response (Some sample_backend_user)))))) = [''/verify-otp'']
   \<and> navigations (fst (handleLogin sample_json ''ada@example.com'' ''secret''
        (Resolved (Some (ok_response
           (Some (sample_backend_user\<lparr>bu_is_verified := JBool True\<rparr>)))))))
       = [''/dashboard'']
   \<and> handleVerifyOtp sample_json (run initial_state sample_session_events) 123456
        ''ada@example.com'' (Resolved (Some (ok_response None)))
       = ([SetIsLoadingAuth True,
           Api (VerifyOtp 123456 ''ada@example.com''),
           SetItem ''admin-skymeasures-currentUser'' (sample_user_text ''true''),
           SetUser (Val (sample_user\<lparr>cu_otpVerified := JBool True\<rparr>)),
           ToastSuccess ''OTP verified successfully. Redirecting to dashboard...'',
           Navigate ''/dashboard'',
           SetIsLoadingAuth False],
          Returned)
   \<and> user (run (run initial_state sample_session_events)
        (fst (handleVerifyOtp sample_json (run initial_state sample_session_events) 123456
                ''ada@example.com'' (Resolved (Some (ok_response None))))))
       = Val (sample_user\<lparr>cu_otpVerified := JBool True\<rparr>)
   \<and> sessionStorage (run (run initial_state sample_session_events)
        (fst (handleVerifyOtp sample_json (run initial_state sample_session_events) 123456
                ''ada@example.com'' (Resolved (Some (ok_response None))))))
        ''admin-skymeasures-currentUser''
       = Some (sample_user_text ''true'')"
proof -
  have e: "''ada@example.com'' \<noteq> []" and s: "''secret'' \<noteq> []" and o: "(123456::int) \<noteq> 0"
    by simp_all
  have st: "status (ok_response x)" for x by (simp add: ok_response_def)
  have u1: "session_if_user sample_json (res_user (Some (ok_response (Some sample_backend_user))))
              (res_token (Some (ok_response (Some sample_backend_user))))
            = Inr sample_session_events"
    by (simp add: ok_response_def sample_session)
  have u2: "session_if_user sample_json
              (res_user (Some (ok_response
                 (Some (sample_backend_user\<lparr>bu_is_verified := JBool True\<rparr>)))))
              (res_token (Some (ok_response
                 (Some (sample_backend_user\<lparr>bu_is_verified := JBool True\<rparr>)))))
            = Inr [SetToken (Val ''t1''),
                   SetUser (Val (sample_user\<lparr>cu_otpVerified := JBool True\<rparr>)),
                   SetRole (Val ''ADMIN''),
                   SetItem ''admin-skymeasures-currentUser'' (sample_user_text ''true''),
                   SetItem ''admin-skymeasures-token'' (quote ''t1'')]"
    by (simp add: ok_response_def sample_session_verified)
  note T1 = login_then_otp[OF e s o st[of "Some sample_backend_user"] st[of None] u1,
              of "run initial_state sample_session_events"]
  note T2 = login_then_otp[OF e s o
              st[of "Some (sample_backend_user\<lparr>bu_is_verified := JBool True\<rparr>)"] st[of None] u2,
              of "run initial_state sample_session_events"]
  have up: "updatedUser (run initial_state sample_session_events)
              = sample_user\<lparr>cu_otpVerified := JBool True\<rparr>"
    by (simp add: updatedUser_def sample_user_after_session)
  have v1: "truthy (user_is_verified (res_user (Some (ok_response (Some sample_backend_user)))))
              = False"
    by (simp add: ok_response_def sample_backend_user_def)
  have v2: "truthy (user_is_verified (res_user (Some (ok_response
              (Some (sample_backend_user\<lparr>bu_is_verified := JBool True\<rparr>)))))) = True"
    by (simp add: ok_response_def)
  note c2 = conjunct2
  show ?thesis
    using T1[THEN c2, THEN conjunct1] T2[THEN c2, THEN conjunct1]
          T1[THEN c2, THEN c2, THEN conjunct1]
          T1[THEN c2, THEN c2, THEN c2, THEN c2, THEN conjunct1]
          T1[THEN c2, THEN c2, THEN c2, THEN c2, THEN c2]
    by (simp only: up v1 v2 sample_json_roundtrip if_True if_False simp_thms)
qed



end
